theory Spec2Isabelle
  imports Complex_Main
begin

section \<open>Numbers\<close>

text \<open>
  The program computes with Python and NumPy floats and hands expression strings to the
  charting engine, which evaluates them with JavaScript numbers. Finite values are modelled
  as \<^typ>\<open>real\<close> (no rounding, no overflow); the non-finite results that the operations of
  the program can produce from finite inputs (a logarithm of a non-positive scale, a
  division by zero) are the three extra values of \<open>fnum\<close>. The sign of a zero is not
  represented: a zero divisor is read as \<open>+0\<close>.
\<close>

datatype fnum = Fin real | PInf | NInf | NaN

datatype error = ValueError

text \<open>Sequencing of computations that may raise.\<close>

definition ebind :: "error + 'a \<Rightarrow> ('a \<Rightarrow> error + 'b) \<Rightarrow> error + 'b" where
  "ebind m k = (case m of Inl e \<Rightarrow> Inl e | Inr v \<Rightarrow> k v)"

fun fneg :: "fnum \<Rightarrow> fnum" where
  "fneg (Fin r) = Fin (- r)"
| "fneg PInf = NInf"
| "fneg NInf = PInf"
| "fneg NaN = NaN"

text \<open>
  \<^verbatim>\<open>np.log10\<close>: minus infinity at zero, not-a-number below it. The warning that
  NumPy prints in these two cases is a diagnostic and not part of the model.
\<close>

definition np_log10 :: "real \<Rightarrow> fnum" where
  "np_log10 x = (if 0 < x then Fin (log 10 x) else if x = 0 then NInf else NaN)"

fun fadd :: "fnum \<Rightarrow> fnum \<Rightarrow> fnum" where
  "fadd NaN _ = NaN"
| "fadd _ NaN = NaN"
| "fadd (Fin a) (Fin b) = Fin (a + b)"
| "fadd PInf NInf = NaN"
| "fadd NInf PInf = NaN"
| "fadd PInf _ = PInf"
| "fadd _ PInf = PInf"
| "fadd NInf _ = NInf"
| "fadd _ NInf = NInf"

fun fdiv :: "fnum \<Rightarrow> fnum \<Rightarrow> fnum" where
  "fdiv NaN _ = NaN"
| "fdiv _ NaN = NaN"
| "fdiv (Fin a) (Fin b) =
     (if b \<noteq> 0 then Fin (a / b)
      else if 0 < a then PInf else if a < 0 then NInf else NaN)"
| "fdiv (Fin a) PInf = Fin 0"
| "fdiv (Fin a) NInf = Fin 0"
| "fdiv PInf (Fin b) = (if 0 \<le> b then PInf else NInf)"
| "fdiv NInf (Fin b) = (if 0 \<le> b then NInf else PInf)"
| "fdiv PInf PInf = NaN"
| "fdiv PInf NInf = NaN"
| "fdiv NInf PInf = NaN"
| "fdiv NInf NInf = NaN"

fun fsqrt :: "fnum \<Rightarrow> fnum" where
  "fsqrt (Fin r) = (if 0 \<le> r then Fin (sqrt r) else NaN)"
| "fsqrt PInf = PInf"
| "fsqrt NInf = NaN"
| "fsqrt NaN = NaN"

fun fatan :: "fnum \<Rightarrow> fnum" where
  "fatan (Fin r) = Fin (arctan r)"
| "fatan PInf = Fin (pi / 2)"
| "fatan NInf = Fin (- (pi / 2))"
| "fatan NaN = NaN"

text \<open>
  \<^verbatim>\<open>Math.pow\<close>: a zero exponent gives 1 whatever the base; a negative base with a
  non-integer exponent gives not-a-number.
\<close>

fun fpow :: "fnum \<Rightarrow> fnum \<Rightarrow> fnum" where
  "fpow _ NaN = NaN"
| "fpow b (Fin e) =
     (if e = 0 then Fin 1
      else (case b of
        NaN \<Rightarrow> NaN
      | PInf \<Rightarrow> (if 0 < e then PInf else Fin 0)
      | NInf \<Rightarrow> (if 0 < e then (if e \<in> \<int> \<and> odd \<lfloor>e\<rfloor> then NInf else PInf) else Fin 0)
      | Fin a \<Rightarrow>
          (if a = 0 then (if 0 < e then Fin 0 else PInf)
           else if e \<in> \<int> then Fin (power_int a \<lfloor>e\<rfloor>)
           else if a < 0 then NaN
           else Fin (a powr e))))"
| "fpow NaN PInf = NaN"
| "fpow NaN NInf = NaN"
| "fpow PInf PInf = PInf"
| "fpow NInf PInf = PInf"
| "fpow PInf NInf = Fin 0"
| "fpow NInf NInf = Fin 0"
| "fpow (Fin a) PInf =
     (if 1 < \<bar>a\<bar> then PInf else if \<bar>a\<bar> = 1 then NaN else Fin 0)"
| "fpow (Fin a) NInf =
     (if 1 < \<bar>a\<bar> then Fin 0 else if \<bar>a\<bar> = 1 then NaN else PInf)"

section \<open>The flattened table of \<^verbatim>\<open>plot_altair\<close>\<close>

text \<open>
  One entry of \<^verbatim>\<open>data_dict\<close>: the arrays \<^verbatim>\<open>'f'\<close> and \<^verbatim>\<open>'Z'\<close> and the optional
  key \<^verbatim>\<open>'fmt'\<close>. The dictionary itself is the list of its items in iteration order.
\<close>

record dataset =
  ds_f :: "real list"
  ds_Z :: "complex list"
  ds_fmt :: "string option"

type_synonym data_dict = "(string \<times> dataset) list"

text \<open>A row of \<^verbatim>\<open>Z_df\<close>, with the columns \<^verbatim>\<open>f, z_real, z_imag, kind, fmt\<close>.\<close>

record row =
  col_f :: real
  z_real :: real
  z_imag :: real
  kind :: string
  fmt :: string

text \<open>
  \<^verbatim>\<open>data_dict[kind].get('fmt', 'o')\<close> and the \<^verbatim>\<open>pd.DataFrame\<close> of one dataset: the two
  scalars are repeated on every row, and arrays of different lengths raise a
  \<^verbatim>\<open>ValueError\<close>.
\<close>

definition get_fmt :: "dataset \<Rightarrow> string" where
  "get_fmt d = (case ds_fmt d of None \<Rightarrow> ''o'' | Some t \<Rightarrow> t)"

definition df_rows :: "string \<Rightarrow> dataset \<Rightarrow> row list" where
  "df_rows knd d =
     map (\<lambda>(fr, z). \<lparr>col_f = fr, z_real = Re z, z_imag = Im z, kind = knd, fmt = get_fmt d\<rparr>)
       (zip (ds_f d) (ds_Z d))"

definition make_df :: "string \<Rightarrow> dataset \<Rightarrow> error + row list" where
  "make_df knd d =
     (if length (ds_f d) \<noteq> length (ds_Z d) then Inl ValueError else Inr (df_rows knd d))"

text \<open>The loop over \<^verbatim>\<open>data_dict.keys()\<close>, appending each frame to \<^verbatim>\<open>Z_df\<close>.\<close>

fun flatten :: "row list \<Rightarrow> data_dict \<Rightarrow> error + row list" where
  "flatten Z_df [] = Inr Z_df"
| "flatten Z_df ((knd, d) # rest) =
     ebind (make_df knd d) (\<lambda>df. flatten (Z_df @ df) rest)"

text \<open>Python's \<^verbatim>\<open>max\<close> and \<^verbatim>\<open>min\<close> of a sequence raise on an empty one.\<close>

fun py_max :: "real list \<Rightarrow> error + real" where
  "py_max [] = Inl ValueError"
| "py_max (x # xs) = Inr (fold max xs x)"

fun py_min :: "real list \<Rightarrow> error + real" where
  "py_min [] = Inl ValueError"
| "py_min (x # xs) = Inr (fold min xs x)"

text \<open>\<^verbatim>\<open>Series.unique()\<close>: the distinct values in order of first appearance.\<close>

fun unique :: "'a list \<Rightarrow> 'a list" where
  "unique [] = []"
| "unique (x # xs) = x # unique (filter (\<lambda>y. y \<noteq> x) xs)"

text \<open>\<^verbatim>\<open>groupby('fmt').get_group(t)\<close>: the rows tagged \<open>t\<close>, in table order.\<close>

definition get_group :: "string \<Rightarrow> row list \<Rightarrow> row list" where
  "get_group t Z_df = filter (\<lambda>r. fmt r = t) Z_df"

section \<open>Charts of the interactive renderer\<close>

text \<open>
  The expressions that \<^verbatim>\<open>transform_calculate\<close> receives as strings, as the syntax trees
  the charting engine evaluates per datum. They only read the three numeric columns.
\<close>

datatype column = F | Z_real | Z_imag

datatype expr =
    Datum column
  | Num real
  | Neg expr
  | Add expr expr
  | Div expr expr
  | Sqrt expr
  | Pow expr expr
  | Atan expr

fun datum :: "row \<Rightarrow> column \<Rightarrow> real" where
  "datum r F = col_f r"
| "datum r Z_real = z_real r"
| "datum r Z_imag = z_imag r"

fun eval_expr :: "expr \<Rightarrow> row \<Rightarrow> fnum" where
  "eval_expr (Datum c) r = Fin (datum r c)"
| "eval_expr (Num x) r = Fin x"
| "eval_expr (Neg a) r = fneg (eval_expr a r)"
| "eval_expr (Add a b) r = fadd (eval_expr a r) (eval_expr b r)"
| "eval_expr (Div a b) r = fdiv (eval_expr a r) (eval_expr b r)"
| "eval_expr (Sqrt a) r = fsqrt (eval_expr a r)"
| "eval_expr (Pow a b) r = fpow (eval_expr a r) (eval_expr b r)"
| "eval_expr (Atan a) r = fatan (eval_expr a r)"

datatype mark = Line | Circle

datatype sel_type = Single | Interval

record selection =
  sel_type :: sel_type
  sel_on :: "string option"
  sel_nearest :: "bool option"
  sel_empty :: "string option"
  sel_fields :: "string list"
  sel_bind :: "string option"
  sel_encodings :: "string list"

record scale =
  sc_type :: "string option"
  sc_domain :: "(real \<times> real) option"
  sc_nice :: "bool option"
  sc_padding :: "real option"

text \<open>
  A positional channel \<^verbatim>\<open>alt.X('z_real:Q', axis=alt.Axis(title=...), scale=...)\<close>, or a
  colour channel; the shorthand is kept split into field and type.
\<close>

record channel =
  ch_field :: string
  ch_type :: string
  ch_axis_title :: "string option"
  ch_scale :: "scale option"
  ch_legend_title :: "string option"

text \<open>\<^verbatim>\<open>alt.condition(selection, alt.value(a), alt.value(b))\<close>.\<close>

datatype condition = Condition selection real real

record unit_chart =
  chart_data :: "row list"
  mark :: "mark option"
  enc_x :: "channel option"
  enc_y :: "channel option"
  enc_size :: "condition option"
  enc_color :: "channel option"
  selections :: "selection list"
  height :: "real option"
  width :: "real option"
  calculate :: "(string \<times> expr) list"

text \<open>
  The figures: a layered chart holds its sub-charts from bottom to top, a vertical
  concatenation (\<^verbatim>\<open>&\<close>) its parts from top to bottom, a horizontal one
  (\<^verbatim>\<open>|\<close>) from left to right. The data stay with the sub-chart that draws them.
\<close>

datatype figure =
    LayerChart "unit_chart list"
  | VConcatChart "figure list"
  | HConcatChart "figure list"

text \<open>The chart methods the program chains; each returns an updated copy.\<close>

definition Chart :: "row list \<Rightarrow> unit_chart" where
  "Chart df = \<lparr>chart_data = df, mark = None, enc_x = None, enc_y = None, enc_size = None,
     enc_color = None, selections = [], height = None, width = None, calculate = []\<rparr>"

definition mark_line :: "unit_chart \<Rightarrow> unit_chart" where
  "mark_line c = c\<lparr>mark := Some Line\<rparr>"

definition mark_circle :: "unit_chart \<Rightarrow> unit_chart" where
  "mark_circle c = c\<lparr>mark := Some Circle\<rparr>"

definition add_selection :: "selection \<Rightarrow> unit_chart \<Rightarrow> unit_chart" where
  "add_selection s c = c\<lparr>selections := selections c @ [s]\<rparr>"

definition properties :: "real \<Rightarrow> real \<Rightarrow> unit_chart \<Rightarrow> unit_chart" where
  "properties h w c = c\<lparr>height := Some h, width := Some w\<rparr>"

definition transform_calculate :: "(string \<times> expr) list \<Rightarrow> unit_chart \<Rightarrow> unit_chart" where
  "transform_calculate kvs c = c\<lparr>calculate := calculate c @ kvs\<rparr>"

text \<open>\<^verbatim>\<open>.interactive()\<close> adds an interval selection bound to the scales: pan and zoom.\<close>

definition selection_interval_scales :: selection where
  "selection_interval_scales = \<lparr>sel_type = Interval, sel_on = None, sel_nearest = None,
     sel_empty = None, sel_fields = [], sel_bind = Some ''scales'',
     sel_encodings = [''x'', ''y'']\<rparr>"

definition interactive :: "unit_chart \<Rightarrow> unit_chart" where
  "interactive c = add_selection selection_interval_scales c"

text \<open>
  \<^verbatim>\<open>alt.selection_single(on='mouseover', nearest=True, empty='none', fields=['f'])\<close>,
  the object bound to \<^verbatim>\<open>nearest\<close>.
\<close>

definition nearest :: selection where
  "nearest = \<lparr>sel_type = Single, sel_on = Some ''mouseover'', sel_nearest = Some True,
     sel_empty = Some ''none'', sel_fields = [''f''], sel_bind = None, sel_encodings = []\<rparr>"

text \<open>Axis titles; the non-ASCII letters are given by their UTF-8 bytes.\<close>

definition ohm_unit :: string where
  "ohm_unit = '' ['' @ [CHR 0xCE, CHR 0xA9] @ '']''"

definition title_re :: string where
  "title_re = ''Z'' @ [CHR 0x27] @ ohm_unit"

definition title_neg_im :: string where
  "title_neg_im = ''-Z'' @ [CHR 0x27, CHR 0x27] @ ohm_unit"

definition title_mag :: string where
  "title_mag = ''|Z|'' @ ohm_unit"

definition title_phase :: string where
  "title_phase = ''-'' @ [CHR 0xCF, CHR 0x95] @ '' ['' @ [CHR 0xC2, CHR 0xB0] @ '']''"

definition nyquist_x :: "real \<Rightarrow> real \<Rightarrow> channel" where
  "nyquist_x min_x max_x = \<lparr>ch_field = ''z_real'', ch_type = ''Q'',
     ch_axis_title = Some title_re,
     ch_scale = Some \<lparr>sc_type = None, sc_domain = Some (min_x, max_x),
                       sc_nice = Some False, sc_padding = Some 5\<rparr>,
     ch_legend_title = None\<rparr>"

definition nyquist_y :: "real \<Rightarrow> real \<Rightarrow> channel" where
  "nyquist_y min_y max_y = \<lparr>ch_field = ''neg_z_imag'', ch_type = ''Q'',
     ch_axis_title = Some title_neg_im,
     ch_scale = Some \<lparr>sc_type = None, sc_domain = Some (min_y, max_y),
                       sc_nice = Some False, sc_padding = Some 5\<rparr>,
     ch_legend_title = None\<rparr>"

definition bode_x :: channel where
  "bode_x = \<lparr>ch_field = ''f'', ch_type = ''Q'', ch_axis_title = Some ''f [Hz]'',
     ch_scale = Some \<lparr>sc_type = Some ''log'', sc_domain = None,
                       sc_nice = Some False, sc_padding = None\<rparr>,
     ch_legend_title = None\<rparr>"

definition color_kind :: "string option \<Rightarrow> channel" where
  "color_kind legend = \<lparr>ch_field = ''kind'', ch_type = ''N'', ch_axis_title = None,
     ch_scale = None, ch_legend_title = legend\<rparr>"

definition bode_y :: "string \<Rightarrow> string \<Rightarrow> channel" where
  "bode_y fld ttl = \<lparr>ch_field = fld, ch_type = ''Q'', ch_axis_title = Some ttl,
     ch_scale = None, ch_legend_title = None\<rparr>"

text \<open>
  The calculated fields:
  \<^verbatim>\<open>neg_z_imag='-datum.z_imag'\<close>,
  \<^verbatim>\<open>mag="sqrt(pow(datum.z_real,2) + pow(datum.z_imag,2))"\<close>,
  \<^verbatim>\<open>neg_phase="-atan(datum.z_imag/datum.z_real)"\<close>.
\<close>

definition neg_z_imag_expr :: expr where
  "neg_z_imag_expr = Neg (Datum Z_imag)"

definition mag_expr :: expr where
  "mag_expr = Sqrt (Add (Pow (Datum Z_real) (Num 2)) (Pow (Datum Z_imag) (Num 2)))"

definition neg_phase_expr :: expr where
  "neg_phase_expr = Neg (Atan (Div (Datum Z_imag) (Datum Z_real)))"

text \<open>The sub-charts of the \<^verbatim>\<open>'-'\<close> branch.\<close>

definition line_nyquist :: "row list \<Rightarrow> real \<times> real \<Rightarrow> real \<times> real \<Rightarrow> real \<Rightarrow> unit_chart" where
  "line_nyquist df dx dy panel_size =
     transform_calculate [(''neg_z_imag'', neg_z_imag_expr)]
       (properties panel_size panel_size
         ((mark_line (Chart df))
            \<lparr>enc_x := Some (nyquist_x (fst dx) (snd dx)),
             enc_y := Some (nyquist_y (fst dy) (snd dy)),
             enc_color := Some (color_kind None)\<rparr>))"

definition line_bode :: "row list \<Rightarrow> real \<Rightarrow> unit_chart" where
  "line_bode df panel_size =
     transform_calculate [(''mag'', mag_expr), (''neg_phase'', neg_phase_expr)]
       (properties (panel_size / 2 - 25) panel_size
         ((mark_line (Chart df))
            \<lparr>enc_x := Some bode_x, enc_color := Some (color_kind None)\<rparr>))"

text \<open>The sub-charts of the \<^verbatim>\<open>'o'\<close> branch.\<close>

definition point_nyquist :: "row list \<Rightarrow> real \<times> real \<Rightarrow> real \<times> real \<Rightarrow> real \<Rightarrow> unit_chart" where
  "point_nyquist df dx dy panel_size =
     interactive
       (transform_calculate [(''neg_z_imag'', neg_z_imag_expr)]
         (properties panel_size panel_size
           (add_selection nearest
             ((mark_circle (Chart df))
                \<lparr>enc_x := Some (nyquist_x (fst dx) (snd dx)),
                 enc_y := Some (nyquist_y (fst dy) (snd dy)),
                 enc_size := Some (Condition nearest 80 30),
                 enc_color := Some (color_kind (Some ''Legend''))\<rparr>))))"

definition point_bode :: "row list \<Rightarrow> real \<Rightarrow> unit_chart" where
  "point_bode df panel_size =
     interactive
       (transform_calculate [(''mag'', mag_expr), (''neg_phase'', neg_phase_expr)]
         (properties (panel_size / 2 - 25) panel_size
           (add_selection nearest
             ((mark_circle (Chart df))
                \<lparr>enc_x := Some bode_x,
                 enc_size := Some (Condition nearest 80 30),
                 enc_color := Some (color_kind None)\<rparr>))))"

text \<open>\<^verbatim>\<open>bode.encode(y=alt.Y('mag:Q', ...))\<close> and its phase twin.\<close>

definition bode_mag :: "unit_chart \<Rightarrow> unit_chart" where
  "bode_mag bode = bode\<lparr>enc_y := Some (bode_y ''mag'' title_mag)\<rparr>"

definition bode_phs :: "unit_chart \<Rightarrow> unit_chart" where
  "bode_phs bode = bode\<lparr>enc_y := Some (bode_y ''neg_phase'' title_phase)\<rparr>"

text \<open>
  \<^verbatim>\<open>plot_altair\<close> from the line that computes \<^verbatim>\<open>fmts\<close> on: the two branches, each
  appending to the three lists, and the composition
  \<^verbatim>\<open>(alt.layer(*bode_mags) & alt.layer(*bode_phss)) | alt.layer(*nyquists)\<close>.
\<close>

definition build_chart :: "row list \<Rightarrow> real \<times> real \<Rightarrow> real \<times> real \<Rightarrow> real \<Rightarrow> figure" where
  "build_chart Z_df dx dy panel_size =
     (let fmts = unique (map fmt Z_df);
          has_line = (''-'' \<in> set fmts);
          has_point = (''o'' \<in> set fmts);
          ldf = get_group ''-'' Z_df;
          pdf = get_group ''o'' Z_df;
          nyquists = (if has_line then [line_nyquist ldf dx dy panel_size] else [])
                   @ (if has_point then [point_nyquist pdf dx dy panel_size] else []);
          bode_mags = (if has_line then [bode_mag (line_bode ldf panel_size)] else [])
                    @ (if has_point then [bode_mag (point_bode pdf panel_size)] else []);
          bode_phss = (if has_line then [bode_phs (line_bode ldf panel_size)] else [])
                    @ (if has_point then [bode_phs (point_bode pdf panel_size)] else []);
          full_bode = VConcatChart [LayerChart bode_mags, LayerChart bode_phss]
      in HConcatChart [full_bode, LayerChart nyquists])"

text \<open>
  \<^verbatim>\<open>plot_altair\<close>: the table, the shared range of the Nyquist axes, the figure. The
  minimum of each column is computed once here and several times in the source, with the
  same value. A table without rows makes the first \<^verbatim>\<open>max\<close> raise.
\<close>

definition plot_altair :: "data_dict \<Rightarrow> real \<Rightarrow> error + figure" where
  "plot_altair data_dict panel_size =
     ebind (flatten [] data_dict) (\<lambda>Z_df.
     ebind (py_max (map z_real Z_df)) (\<lambda>max_re.
     ebind (py_min (map z_real Z_df)) (\<lambda>min_re.
     ebind (py_max (map (\<lambda>r. - z_imag r) Z_df)) (\<lambda>max_ni.
     ebind (py_min (map (\<lambda>r. - z_imag r) Z_df)) (\<lambda>min_ni.
       let range_x = max_re - min_re;
           range_y = max_ni - min_ni;
           rng = max range_x range_y;
           min_x = min_re;
           max_x = min_re + rng;
           min_y = min_ni;
           max_y = min_ni + rng
       in Inr (build_chart Z_df (min_x, max_x) (min_y, max_y) panel_size))))))"

text \<open>
  What the engine draws for a channel of a sub-chart: per row of its data, the value of
  the channel's field, a calculated field if there is one of that name and a numeric
  column otherwise. (The program never calculates two fields of one name.)
\<close>

definition datum_field :: "unit_chart \<Rightarrow> row \<Rightarrow> string \<Rightarrow> fnum option" where
  "datum_field c r name =
     (case map_of (calculate c) name of
        Some e \<Rightarrow> Some (eval_expr e r)
      | None \<Rightarrow>
          (if name = ''f'' then Some (Fin (col_f r))
           else if name = ''z_real'' then Some (Fin (z_real r))
           else if name = ''z_imag'' then Some (Fin (z_imag r))
           else None))"

definition plotted :: "unit_chart \<Rightarrow> channel option \<Rightarrow> fnum option list" where
  "plotted c ch =
     (case ch of None \<Rightarrow> []
      | Some e \<Rightarrow> map (\<lambda>r. datum_field c r (ch_field e)) (chart_data c))"

text \<open>The domain of the scale of a channel, and the length of a domain.\<close>

definition domain_of :: "channel option \<Rightarrow> (real \<times> real) option" where
  "domain_of ch = Option.bind (Option.bind ch ch_scale) sc_domain"

definition span :: "real \<times> real \<Rightarrow> real" where
  "span dm = snd dm - fst dm"

section \<open>Notions of the specification\<close>

text \<open>
  A collection is well formed when the two arrays of each dataset have the same length;
  its flattened table is then the rows of its datasets, in order.
\<close>

definition well_formed :: "data_dict \<Rightarrow> bool" where
  "well_formed d = list_all (\<lambda>(knd, ds). length (ds_f ds) = length (ds_Z ds)) d"

definition table :: "data_dict \<Rightarrow> row list" where
  "table d = concat (map (\<lambda>(knd, ds). df_rows knd ds) d)"

text \<open>
  The square range: the larger of the range of the real parts and the range of the
  negated imaginary parts, laid from the minimum of each.
\<close>

definition real_parts :: "row list \<Rightarrow> real set" where
  "real_parts Z_df = set (map z_real Z_df)"

definition neg_imag_parts :: "row list \<Rightarrow> real set" where
  "neg_imag_parts Z_df = set (map (\<lambda>r. - z_imag r) Z_df)"

definition square_span :: "row list \<Rightarrow> real" where
  "square_span Z_df =
     max (Max (real_parts Z_df) - Min (real_parts Z_df))
         (Max (neg_imag_parts Z_df) - Min (neg_imag_parts Z_df))"

definition domain_x :: "row list \<Rightarrow> real \<times> real" where
  "domain_x Z_df = (Min (real_parts Z_df), Min (real_parts Z_df) + square_span Z_df)"

definition domain_y :: "row list \<Rightarrow> real \<times> real" where
  "domain_y Z_df = (Min (neg_imag_parts Z_df), Min (neg_imag_parts Z_df) + square_span Z_df)"

text \<open>Collections for the examples: one per style, one with a tag that is neither, one
  whose only dataset has no samples, and one with a sample in the left half plane.\<close>

definition example_line :: data_dict where
  "example_line = [(''fit'', \<lparr>ds_f = [1, 10], ds_Z = [Complex 100 0, Complex 80 (- 20)],
                              ds_fmt = Some ''-''\<rparr>)]"

definition example_point :: data_dict where
  "example_point = [(''data'', \<lparr>ds_f = [1, 10], ds_Z = [Complex 100 0, Complex 60 (- 10)],
                                ds_fmt = None\<rparr>)]"

definition example_other :: data_dict where
  "example_other = [(''raw'', \<lparr>ds_f = [1], ds_Z = [Complex 3 4], ds_fmt = Some ''x''\<rparr>)]"

definition example_empty :: data_dict where
  "example_empty = [(''none'', \<lparr>ds_f = [], ds_Z = [], ds_fmt = None\<rparr>)]"

definition example_left :: data_dict where
  "example_left = [(''fit'', \<lparr>ds_f = [1], ds_Z = [Complex (- 1) 1], ds_fmt = Some ''-''\<rparr>),
                   (''data'', \<lparr>ds_f = [1], ds_Z = [Complex (- 1) 1], ds_fmt = None\<rparr>)]"

section \<open>The static renderer\<close>

text \<open>
  \<^verbatim>\<open>FixedOrderFormatter\<close>: the constructor stores the order and runs the constructor of
  the base class, which starts \<^verbatim>\<open>orderOfMagnitude\<close>, the order in use, at 0. The method
  \<^verbatim>\<open>_set_orderOfMagnitude(self, range)\<close> writes the stored order into the order in use
  and ignores the range. It overrides the hook that the base class of matplotlib before
  3.1 calls with the visible range when the tick locations are set; later versions of
  the base class call a hook of another name, \<^verbatim>\<open>_set_order_of_magnitude()\<close>, so there
  the method is never called. Which of the two the installed library does is not part of
  the program and is not modelled.
\<close>

record formatter =
  order_of_mag :: fnum
  useOffset :: bool
  useMathText :: bool
  orderOfMagnitude :: fnum

definition FixedOrderFormatter :: "fnum \<Rightarrow> formatter" where
  "FixedOrderFormatter order =
     \<lparr>order_of_mag = order, useOffset = True, useMathText = True, orderOfMagnitude = Fin 0\<rparr>"

definition set_orderOfMagnitude :: "formatter \<Rightarrow> real \<Rightarrow> formatter" where
  "set_orderOfMagnitude self rng = self\<lparr>orderOfMagnitude := order_of_mag self\<rparr>"

text \<open>
  The part of a \<^verbatim>\<open>matplotlib\<close> axes object that the program writes. A formatter of
  \<open>None\<close> is the library's default one. The keyword arguments are forwarded as they
  are, so their type is left open. The library's own validation of the format string and
  of the keyword arguments is not part of this repository and is not modelled: the model
  describes the calls the library accepts.
\<close>

record 'kw line2d =
  xdata :: "real list"
  ydata :: "real list"
  line_fmt :: string
  line_kwargs :: 'kw

record 'kw axes =
  lines :: "'kw line2d list"
  aspect :: string
  xlabel :: "string \<times> real"
  ylabel :: "string \<times> real"
  major_labelsize_x :: real
  major_labelsize_y :: real
  locator_x :: "(nat \<times> bool) option"
  locator_y :: "(nat \<times> bool) option"
  grid_major_x :: "(bool \<times> real) option"
  grid_major_y :: "(bool \<times> real) option"
  formatter_x :: "formatter option"
  formatter_y :: "formatter option"
  offset_text_size_x :: real
  offset_text_size_y :: real

text \<open>The labels, \<^verbatim>\<open>r'$Z^{\prime}(\omega)$ ' + '$[{}]$'.format(units)\<close> and its twin.\<close>

definition label_re :: "string \<Rightarrow> string" where
  "label_re units = ''$Z^{'' @ [CHR 0x5C] @ ''prime}('' @ [CHR 0x5C] @ ''omega)$ ''
     @ ''$['' @ units @ '']$''"

definition label_neg_im :: "string \<Rightarrow> string" where
  "label_neg_im units =
     ''$-Z^{'' @ [CHR 0x5C] @ ''prime'' @ [CHR 0x5C] @ ''prime}('' @ [CHR 0x5C] @ ''omega)$ ''
     @ ''$['' @ units @ '']$''"

text \<open>The body of \<^verbatim>\<open>plot_nyquist\<close>, as the update of the axes object it is given.\<close>

definition plot_nyquist_ax ::
  "'kw axes \<Rightarrow> complex list \<Rightarrow> real \<Rightarrow> string \<Rightarrow> string \<Rightarrow> 'kw \<Rightarrow> 'kw axes" where
  "plot_nyquist_ax ax Z scl units fm kwargs =
     ax\<lparr>lines := lines ax @ [\<lparr>xdata = map Re Z, ydata = map (\<lambda>z. - Im z) Z,
                               line_fmt = fm, line_kwargs = kwargs\<rparr>],
        aspect := ''equal'',
        xlabel := (label_re units, 20),
        ylabel := (label_neg_im units, 20),
        major_labelsize_x := 14,
        major_labelsize_y := 14,
        locator_x := Some (5, True),
        locator_y := Some (5, True),
        grid_major_x := Some (True, 0.5),
        grid_major_y := Some (True, 0.5),
        formatter_x := Some (FixedOrderFormatter (fneg (np_log10 scl))),
        formatter_y := Some (FixedOrderFormatter (fneg (np_log10 scl))),
        offset_text_size_y := 18,
        offset_text_size_x := 18\<rparr>"

text \<open>
  Objects live in a store, and \<^verbatim>\<open>ax\<close> is a reference into it: the function mutates
  the object behind the reference and returns the reference.
\<close>

type_synonym ref = nat

type_synonym 'kw store = "ref \<Rightarrow> 'kw axes option"

definition plot_nyquist ::
  "ref \<Rightarrow> complex list \<Rightarrow> real \<Rightarrow> string \<Rightarrow> string \<Rightarrow> 'kw \<Rightarrow> 'kw store \<Rightarrow> ref \<times> 'kw store" where
  "plot_nyquist ax Z scl units fm kwargs st =
     (ax, st(ax := map_option (\<lambda>a. plot_nyquist_ax a Z scl units fm kwargs) (st ax)))"

text \<open>An axes object on which nothing has been drawn, for the examples.\<close>

definition fresh_axes :: "unit axes" where
  "fresh_axes = \<lparr>lines = [], aspect = ''auto'', xlabel = ([], 10), ylabel = ([], 10),
     major_labelsize_x = 10, major_labelsize_y = 10, locator_x = None, locator_y = None,
     grid_major_x = None, grid_major_y = None, formatter_x = None, formatter_y = None,
     offset_text_size_x = 10, offset_text_size_y = 10\<rparr>"

text \<open>The points of a plotted line, in order.\<close>

definition points :: "'kw line2d \<Rightarrow> (real \<times> real) list" where
  "points l = zip (xdata l) (ydata l)"

section \<open>Auxiliary facts\<close>

subsection \<open>Errors, the table and the range\<close>

lemma ebind_Inr [simp]: "ebind (Inr v) k = k v"
  by (simp add: ebind_def)

lemma ebind_Inl [simp]: "ebind (Inl e) k = Inl e"
  by (simp add: ebind_def)

lemma ebind_eq_Inr: "ebind m k = Inr c \<longleftrightarrow> (\<exists>v. m = Inr v \<and> k v = Inr c)"
  by (cases m) simp_all

lemma flatten_well_formed:
  "well_formed d \<Longrightarrow> flatten acc d = Inr (acc @ table d)"
  by (induction d arbitrary: acc) (auto simp: well_formed_def table_def make_df_def)

lemma flatten_Inr_well_formed:
  "flatten acc d = Inr Z_df \<Longrightarrow> well_formed d"
  by (induction d arbitrary: acc)
     (auto simp: well_formed_def make_df_def ebind_eq_Inr split: if_splits)

lemma py_max_Max: "xs \<noteq> [] \<Longrightarrow> py_max xs = Inr (Max (set xs))"
proof (cases xs)
  case (Cons x ys)
  then show ?thesis using Max.set_eq_fold [of x ys] by simp
qed simp

lemma py_min_Min: "xs \<noteq> [] \<Longrightarrow> py_min xs = Inr (Min (set xs))"
proof (cases xs)
  case (Cons x ys)
  then show ?thesis using Min.set_eq_fold [of x ys] by simp
qed simp

lemma set_unique [simp]: "set (unique xs) = set xs"
  by (induction xs rule: unique.induct) auto

lemma table_append: "table (d1 @ d2) = table d1 @ table d2"
  by (simp add: table_def)

lemma table_fmt:
  "r \<in> set (table d) \<Longrightarrow> \<exists>(knd, ds) \<in> set d. r \<in> set (df_rows knd ds) \<and> fmt r = get_fmt ds"
  by (auto simp: table_def df_rows_def) force

lemma df_rows_fmt: "r \<in> set (df_rows knd ds) \<Longrightarrow> fmt r = get_fmt ds"
  by (auto simp: df_rows_def)

lemma df_rows_table: "(knd, ds) \<in> set d \<Longrightarrow> set (df_rows knd ds) \<subseteq> set (table d)"
  by (auto simp: table_def)

lemma all_tagged:
  assumes "\<forall>(knd, ds) \<in> set d. get_fmt ds = t"
  shows "fmt ` set (table d) \<subseteq> {t}"
  using assms table_fmt [of _ d] by fastforce

subsection \<open>When \<^verbatim>\<open>plot_altair\<close> returns, and what\<close>

lemma plot_altair_returns:
  assumes "well_formed d" and "table d \<noteq> []"
  shows "plot_altair d sz =
    Inr (build_chart (table d) (domain_x (table d)) (domain_y (table d)) sz)"
  using assms
  by (simp add: plot_altair_def flatten_well_formed py_max_Max py_min_Min
      domain_x_def domain_y_def square_span_def real_parts_def neg_imag_parts_def Let_def)

lemma plot_altair_Inr:
  assumes "plot_altair d sz = Inr c"
  shows "well_formed d \<and> table d \<noteq> []"
proof -
  from assms obtain Z_df where fl: "flatten [] d = Inr Z_df"
    and mx: "\<exists>v. py_max (map z_real Z_df) = Inr v"
    by (auto simp: plot_altair_def ebind_eq_Inr)
  have wf: "well_formed d" using fl by (rule flatten_Inr_well_formed)
  with fl have "Z_df = table d" by (simp add: flatten_well_formed)
  moreover from mx have "Z_df \<noteq> []" by auto
  ultimately show ?thesis using wf by simp
qed

lemma plot_altair_build:
  assumes "plot_altair d sz = Inr c"
  shows "c = build_chart (table d) (domain_x (table d)) (domain_y (table d)) sz"
  using assms plot_altair_Inr [OF assms] by (simp add: plot_altair_returns)

lemmas chart_defs = line_nyquist_def point_nyquist_def line_bode_def point_bode_def
  bode_mag_def bode_phs_def transform_calculate_def properties_def add_selection_def
  interactive_def mark_line_def mark_circle_def Chart_def

lemma build_chart_tags:
  "build_chart Z_df dx dy sz =
     HConcatChart
       [VConcatChart
          [LayerChart
             ((if ''-'' \<in> fmt ` set Z_df
               then [bode_mag (line_bode (get_group ''-'' Z_df) sz)] else [])
            @ (if ''o'' \<in> fmt ` set Z_df
               then [bode_mag (point_bode (get_group ''o'' Z_df) sz)] else [])),
           LayerChart
             ((if ''-'' \<in> fmt ` set Z_df
               then [bode_phs (line_bode (get_group ''-'' Z_df) sz)] else [])
            @ (if ''o'' \<in> fmt ` set Z_df
               then [bode_phs (point_bode (get_group ''o'' Z_df) sz)] else []))],
        LayerChart
          ((if ''-'' \<in> fmt ` set Z_df
            then [line_nyquist (get_group ''-'' Z_df) dx dy sz] else [])
         @ (if ''o'' \<in> fmt ` set Z_df
            then [point_nyquist (get_group ''o'' Z_df) dx dy sz] else []))]"
  by (simp add: build_chart_def Let_def)

lemma covered:
  assumes "plot_altair d sz =
      Inr (HConcatChart [VConcatChart [LayerChart mags, LayerChart phss], LayerChart nyqs])"
    and "r \<in> set (table d)" and "fmt r = ''-'' \<or> fmt r = ''o''"
  shows "(\<exists>u \<in> set mags. r \<in> set (chart_data u))
       \<and> (\<exists>u \<in> set phss. r \<in> set (chart_data u))
       \<and> (\<exists>u \<in> set nyqs. r \<in> set (chart_data u))"
proof -
  from assms(2) have tag: "fmt r \<in> fmt ` set (table d)" by simp
  from assms(2) have grp: "r \<in> set (get_group (fmt r) (table d))"
    by (simp add: get_group_def)
  from assms(3) show ?thesis
  proof
    assume "fmt r = ''-''"
    with tag grp plot_altair_build [OF assms(1)] show ?thesis
      by (simp add: build_chart_tags chart_defs)
  next
    assume "fmt r = ''o''"
    with tag grp plot_altair_build [OF assms(1)] show ?thesis
      by (simp add: build_chart_tags chart_defs)
  qed
qed

lemma fpow_2 [simp]: "fpow (Fin a) (Fin 2) = Fin (a\<^sup>2)"
  by simp

lemma eval_mag: "eval_expr mag_expr r = Fin (sqrt ((z_real r)\<^sup>2 + (z_imag r)\<^sup>2))"
  by (simp add: mag_expr_def)

lemma eval_neg_phase:
  "eval_expr neg_phase_expr r = fneg (fatan (fdiv (Fin (z_imag r)) (Fin (z_real r))))"
  by (simp add: neg_phase_expr_def)

lemma df_rows_default:
  "df_rows knd (ds\<lparr>ds_fmt := None\<rparr>) = df_rows knd (ds\<lparr>ds_fmt := Some ''o''\<rparr>)"
  by (simp add: df_rows_def get_fmt_def)

lemma flatten_default:
  "flatten acc (d1 @ (knd, ds\<lparr>ds_fmt := None\<rparr>) # d2)
     = flatten acc (d1 @ (knd, ds\<lparr>ds_fmt := Some ''o''\<rparr>) # d2)"
proof (induction d1 arbitrary: acc)
  case Nil
  show ?case by (simp add: make_df_def df_rows_default)
next
  case (Cons x d1)
  then show ?case by (cases x) (simp add: ebind_def split: sum.splits)
qed

subsection \<open>The examples\<close>

lemma wf_examples:
  "well_formed example_line" "well_formed example_point" "well_formed example_other"
  "well_formed (example_line @ example_point)" "well_formed (example_line @ example_other)"
  "well_formed example_left"
  by (simp_all add: well_formed_def example_line_def example_point_def example_other_def
      example_left_def)

lemma table_example_line:
  "table example_line =
     [\<lparr>col_f = 1, z_real = 100, z_imag = 0, kind = ''fit'', fmt = ''-''\<rparr>,
      \<lparr>col_f = 10, z_real = 80, z_imag = - 20, kind = ''fit'', fmt = ''-''\<rparr>]"
  by (simp add: table_def example_line_def df_rows_def get_fmt_def)

lemma table_example_point:
  "table example_point =
     [\<lparr>col_f = 1, z_real = 100, z_imag = 0, kind = ''data'', fmt = ''o''\<rparr>,
      \<lparr>col_f = 10, z_real = 60, z_imag = - 10, kind = ''data'', fmt = ''o''\<rparr>]"
  by (simp add: table_def example_point_def df_rows_def get_fmt_def)

lemma table_example_other:
  "table example_other =
     [\<lparr>col_f = 1, z_real = 3, z_imag = 4, kind = ''raw'', fmt = ''x''\<rparr>]"
  by (simp add: table_def example_other_def df_rows_def get_fmt_def)

lemma table_example_left:
  "table example_left =
     [\<lparr>col_f = 1, z_real = - 1, z_imag = 1, kind = ''fit'', fmt = ''-''\<rparr>,
      \<lparr>col_f = 1, z_real = - 1, z_imag = 1, kind = ''data'', fmt = ''o''\<rparr>]"
  by (simp add: table_def example_left_def df_rows_def get_fmt_def)

lemma square_span_example: "square_span (table (example_line @ example_point)) = 40"
  by (simp add: table_append table_example_line table_example_point square_span_def
      real_parts_def neg_imag_parts_def)

lemma domain_example:
  "domain_x (table (example_line @ example_point)) = (60, 100)"
  "domain_y (table (example_line @ example_point)) = (0, 40)"
  unfolding domain_x_def domain_y_def square_span_example
  by (simp_all add: table_append table_example_line table_example_point
      real_parts_def neg_imag_parts_def)

lemma fmts_example:
  "fmt ` set (table (example_line @ example_point)) = {''-'', ''o''}"
  by (auto simp: table_append table_example_line table_example_point)

lemma nonempty_example: "table (example_line @ example_point) \<noteq> []"
  by (simp add: table_append table_example_line)

lemma returns_example_line:
  "plot_altair example_line 400 =
     Inr (HConcatChart
       [VConcatChart
          [LayerChart [bode_mag (line_bode (table example_line) 400)],
           LayerChart [bode_phs (line_bode (table example_line) 400)]],
        LayerChart [line_nyquist (table example_line)
                      (domain_x (table example_line)) (domain_y (table example_line)) 400]])"
proof -
  have "table example_line \<noteq> []" by (simp add: table_example_line)
  moreover have "fmt ` set (table example_line) = {''-''}"
    by (simp add: table_example_line)
  moreover have "get_group ''-'' (table example_line) = table example_line"
    by (simp add: table_example_line get_group_def)
  ultimately show ?thesis by (simp add: plot_altair_returns build_chart_tags wf_examples)
qed

lemma returns_example_point:
  "plot_altair example_point 400 =
     Inr (HConcatChart
       [VConcatChart
          [LayerChart [bode_mag (point_bode (table example_point) 400)],
           LayerChart [bode_phs (point_bode (table example_point) 400)]],
        LayerChart [point_nyquist (table example_point)
                      (domain_x (table example_point)) (domain_y (table example_point)) 400]])"
proof -
  have "table example_point \<noteq> []" by (simp add: table_example_point)
  moreover have "fmt ` set (table example_point) = {''o''}"
    by (simp add: table_example_point)
  moreover have "get_group ''o'' (table example_point) = table example_point"
    by (simp add: table_example_point get_group_def)
  ultimately show ?thesis by (simp add: plot_altair_returns build_chart_tags wf_examples)
qed

lemma returns_example_left:
  "plot_altair example_left 400 =
     Inr (HConcatChart
       [VConcatChart
          [LayerChart [bode_mag (line_bode (get_group ''-'' (table example_left)) 400),
                       bode_mag (point_bode (get_group ''o'' (table example_left)) 400)],
           LayerChart [bode_phs (line_bode (get_group ''-'' (table example_left)) 400),
                       bode_phs (point_bode (get_group ''o'' (table example_left)) 400)]],
        LayerChart [line_nyquist (get_group ''-'' (table example_left))
                      (domain_x (table example_left)) (domain_y (table example_left)) 400,
                    point_nyquist (get_group ''o'' (table example_left))
                      (domain_x (table example_left)) (domain_y (table example_left)) 400]])"
proof -
  have "table example_left \<noteq> []" by (simp add: table_example_left)
  moreover have "fmt ` set (table example_left) = {''-'', ''o''}"
    by (auto simp: table_example_left)
  ultimately show ?thesis
    by (simp add: plot_altair_returns wf_examples build_chart_tags)
qed

subsection \<open>The static renderer\<close>

lemma zip_re_im: "zip (map Re Z) (map (\<lambda>z. - Im z) Z) = map (\<lambda>z. (Re z, - Im z)) Z"
  by (induction Z) simp_all

lemma order_of_mag_foldl:
  "order_of_mag (foldl set_orderOfMagnitude fm rngs) = order_of_mag fm"
  by (induction rngs arbitrary: fm) (simp_all add: set_orderOfMagnitude_def)

lemma orderOfMagnitude_foldl:
  "rngs \<noteq> [] \<Longrightarrow> orderOfMagnitude (foldl set_orderOfMagnitude fm rngs) = order_of_mag fm"
  by (cases rngs rule: rev_cases) (simp_all add: set_orderOfMagnitude_def order_of_mag_foldl)

section \<open>The static renderer: \<^verbatim>\<open>plot_nyquist\<close>\<close>

text \<open>
  C2. For every complex array \<open>Z\<close>, the line that \<^verbatim>\<open>plot_nyquist\<close> adds to the axes
  has the real parts of \<open>Z\<close> as horizontal coordinates and the negated imaginary parts as
  vertical ones, element by element and in the order of \<open>Z\<close>; the lines drawn before are
  kept.
\<close>

theorem plot_nyquist_points:
  assumes "st ax = Some a"
  shows "\<exists>a' l. snd (plot_nyquist ax Z scl units fm kwargs st) ax = Some a'
            \<and> lines a' = lines a @ [l]
            \<and> xdata l = map Re Z
            \<and> ydata l = map (\<lambda>z. - Im z) Z
            \<and> points l = map (\<lambda>z. (Re z, - Im z)) Z"
  using assms by (simp add: plot_nyquist_def plot_nyquist_ax_def points_def zip_re_im)

theorem plot_nyquist_points_witness:
  "\<exists>a' l. snd (plot_nyquist 0 [Complex 100 0, Complex 80 (- 20), Complex 60 (- 40)] 1
                 ''Ohms'' ''.-'' () (\<lambda>r. if r = 0 then Some fresh_axes else None)) 0 = Some a'
      \<and> lines a' = [l]
      \<and> points l = [(100, 0), (80, 20), (60, 40)]"
  using plot_nyquist_points [of "\<lambda>r. if r = 0 then Some fresh_axes else None" 0 fresh_axes
      "[Complex 100 0, Complex 80 (- 20), Complex 60 (- 40)]" 1 "''Ohms''" "''.-''" "()"]
  by (auto simp: fresh_axes_def)

lemma stored_order:
  assumes "0 < scl" and "st ax = Some a"
  shows "\<exists>a' fx fy. snd (plot_nyquist ax Z scl units fm kwargs st) ax = Some a'
           \<and> formatter_x a' = Some fx \<and> formatter_y a' = Some fy
           \<and> order_of_mag fx = Fin (- log 10 scl)
           \<and> order_of_mag fy = Fin (- log 10 scl)
           \<and> orderOfMagnitude fx = Fin 0
           \<and> orderOfMagnitude fy = Fin 0
           \<and> (\<forall>rngs. rngs \<noteq> [] \<longrightarrow>
                orderOfMagnitude (foldl set_orderOfMagnitude fx rngs) = Fin (- log 10 scl))
           \<and> (\<forall>rngs. rngs \<noteq> [] \<longrightarrow>
                orderOfMagnitude (foldl set_orderOfMagnitude fy rngs) = Fin (- log 10 scl))"
  using assms
  by (simp add: plot_nyquist_def plot_nyquist_ax_def orderOfMagnitude_foldl)
     (simp add: FixedOrderFormatter_def np_log10_def)




section \<open>The interactive renderer: \<^verbatim>\<open>plot_altair\<close>\<close>

text \<open>
  C1, as amended. For a collection whose datasets each have as many frequencies as
  impedances and which holds at least one sample, \<^verbatim>\<open>plot_altair\<close> returns a figure,
  and every Nyquist sub-chart of it, line or point, has the same pair of domains: the
  x-domain starts at the least real part, the y-domain at the least negated imaginary
  part, and both have the length \<open>max\<close> (range of the real parts) (range of the negated
  imaginary parts), taken over all rows of the flattened table.
\<close>

theorem nyquist_square_domain:
  assumes "well_formed d" and "table d \<noteq> []"
  shows "\<exists>mags phss nyqs.
           plot_altair d sz =
             Inr (HConcatChart [VConcatChart [LayerChart mags, LayerChart phss], LayerChart nyqs])
         \<and> (\<forall>u \<in> set nyqs. domain_of (enc_x u) = Some (domain_x (table d))
                            \<and> domain_of (enc_y u) = Some (domain_y (table d)))
         \<and> fst (domain_x (table d)) = Min (real_parts (table d))
         \<and> fst (domain_y (table d)) = Min (neg_imag_parts (table d))
         \<and> span (domain_x (table d)) = square_span (table d)
         \<and> span (domain_y (table d)) = square_span (table d)"
  using assms
  by (auto simp: plot_altair_returns build_chart_def Let_def chart_defs domain_of_def
      nyquist_x_def nyquist_y_def domain_x_def domain_y_def span_def)

theorem nyquist_square_domain_witness:
  "\<exists>mags phss l p.
      plot_altair (example_line @ example_point) 400 =
        Inr (HConcatChart [VConcatChart [LayerChart mags, LayerChart phss], LayerChart [l, p]])
    \<and> domain_of (enc_x l) = Some (60, 100) \<and> domain_of (enc_y l) = Some (0, 40)
    \<and> domain_of (enc_x p) = Some (60, 100) \<and> domain_of (enc_y p) = Some (0, 40)
    \<and> span (60, 100) = 40 \<and> span (0, 40) = 40
    \<and> square_span (table (example_line @ example_point)) = 40"
proof -
  have "\<exists>mags phss l p. build_chart (table (example_line @ example_point)) (60, 100) (0, 40) 400
      = HConcatChart [VConcatChart [LayerChart mags, LayerChart phss], LayerChart [l, p]]"
    by (simp add: build_chart_def Let_def fmts_example)
  then show ?thesis
    using nyquist_square_domain [OF wf_examples(4) nonempty_example, of 400]
    by (auto simp: domain_example square_span_example plot_altair_returns wf_examples
        nonempty_example)
qed

text \<open>
  Stated for every non-empty collection, C1 fails: a collection whose only dataset has
  no samples is not empty, and \<^verbatim>\<open>plot_altair\<close> raises on it.
\<close>

theorem nyquist_square_domain_counterexample:
  "example_empty \<noteq> [] \<and> plot_altair example_empty 400 = Inl ValueError"
  by (simp add: example_empty_def plot_altair_def make_df_def df_rows_def)

text \<open>
  C3. In every sub-chart of the phase panel of a returned figure, line or point, the
  field on the y axis is the calculated field \<open>neg_phase\<close>, whose expression is the
  negated one-argument arctangent of \<open>z_imag / z_real\<close>, and the values drawn are those
  of this expression on the rows of the sub-chart, whatever the sign of the real part.
  Where the real part is not zero the value is \<open>- arctan (z_imag / z_real)\<close>; so for a
  negative real part it still lies strictly between \<open>- pi / 2\<close> and \<open>pi / 2\<close>: there is no
  quadrant correction. Every row of the table tagged \<open>'-'\<close> or \<open>'o'\<close> is a row of one of
  these sub-charts.
\<close>

theorem phase_plotted:
  assumes "plot_altair d sz =
      Inr (HConcatChart [VConcatChart [LayerChart mags, LayerChart phss], LayerChart nyqs])"
  shows "(\<forall>u \<in> set phss.
            (mark u = Some Line \<and> chart_data u = get_group ''-'' (table d)
             \<or> mark u = Some Circle \<and> chart_data u = get_group ''o'' (table d))
          \<and> map_option ch_field (enc_y u) = Some ''neg_phase''
          \<and> map_of (calculate u) ''neg_phase'' =
              Some (Neg (Atan (Div (Datum Z_imag) (Datum Z_real))))
          \<and> plotted u (enc_y u) =
              map (\<lambda>r. Some (fneg (fatan (fdiv (Fin (z_imag r)) (Fin (z_real r))))))
                (chart_data u)
          \<and> (\<forall>r \<in> set (chart_data u). z_real r \<noteq> 0 \<longrightarrow>
               datum_field u r ''neg_phase'' = Some (Fin (- arctan (z_imag r / z_real r))))
          \<and> (\<forall>r \<in> set (chart_data u). z_real r < 0 \<longrightarrow>
               (\<exists>v. datum_field u r ''neg_phase'' = Some (Fin v) \<and> \<bar>v\<bar> < pi / 2)))
       \<and> (\<forall>r \<in> set (table d). fmt r = ''-'' \<or> fmt r = ''o'' \<longrightarrow>
            (\<exists>u \<in> set phss. r \<in> set (chart_data u)))"
proof (rule conjI)
  have bound: "\<bar>- arctan x\<bar> < pi / 2" for x :: real
    using arctan_bounded [of x] by (simp add: abs_if)
  show "\<forall>u \<in> set phss.
            (mark u = Some Line \<and> chart_data u = get_group ''-'' (table d)
             \<or> mark u = Some Circle \<and> chart_data u = get_group ''o'' (table d))
          \<and> map_option ch_field (enc_y u) = Some ''neg_phase''
          \<and> map_of (calculate u) ''neg_phase'' =
              Some (Neg (Atan (Div (Datum Z_imag) (Datum Z_real))))
          \<and> plotted u (enc_y u) =
              map (\<lambda>r. Some (fneg (fatan (fdiv (Fin (z_imag r)) (Fin (z_real r))))))
                (chart_data u)
          \<and> (\<forall>r \<in> set (chart_data u). z_real r \<noteq> 0 \<longrightarrow>
               datum_field u r ''neg_phase'' = Some (Fin (- arctan (z_imag r / z_real r))))
          \<and> (\<forall>r \<in> set (chart_data u). z_real r < 0 \<longrightarrow>
               (\<exists>v. datum_field u r ''neg_phase'' = Some (Fin v) \<and> \<bar>v\<bar> < pi / 2))"
    using plot_altair_build [OF assms] bound
    by (auto simp: build_chart_def Let_def chart_defs bode_y_def plotted_def datum_field_def
        eval_neg_phase neg_phase_expr_def split: if_splits)
  show "\<forall>r \<in> set (table d). fmt r = ''-'' \<or> fmt r = ''o'' \<longrightarrow>
            (\<exists>u \<in> set phss. r \<in> set (chart_data u))"
    using covered [OF assms] by blast
qed

theorem phase_plotted_witness:
  "\<exists>mags l p nyqs.
      plot_altair example_left 400 =
        Inr (HConcatChart [VConcatChart [LayerChart mags, LayerChart [l, p]], LayerChart nyqs])
    \<and> mark l = Some Line \<and> mark p = Some Circle
    \<and> plotted l (enc_y l) = [Some (Fin (pi / 4))]
    \<and> plotted p (enc_y p) = [Some (Fin (pi / 4))]"
  using phase_plotted [OF returns_example_left]
  by (simp add: returns_example_left table_example_left get_group_def arctan_minus
      arctan_one chart_defs)

text \<open>
  C4. In every sub-chart of the magnitude panel of a returned figure, line or point, the
  field on the y axis is the calculated field \<open>mag\<close>, and the value drawn for each row
  of the sub-chart is the square root of the sum of the squares of its real and imaginary
  parts (in real arithmetic, which leaves the rounding of the floats aside). Every row of
  the table tagged \<open>'-'\<close> or \<open>'o'\<close> is a row of one of these sub-charts.
\<close>

theorem magnitude_plotted:
  assumes "plot_altair d sz =
      Inr (HConcatChart [VConcatChart [LayerChart mags, LayerChart phss], LayerChart nyqs])"
  shows "(\<forall>u \<in> set mags.
            (mark u = Some Line \<and> chart_data u = get_group ''-'' (table d)
             \<or> mark u = Some Circle \<and> chart_data u = get_group ''o'' (table d))
          \<and> map_option ch_field (enc_y u) = Some ''mag''
          \<and> map_of (calculate u) ''mag'' =
              Some (Sqrt (Add (Pow (Datum Z_real) (Num 2)) (Pow (Datum Z_imag) (Num 2))))
          \<and> plotted u (enc_y u) =
              map (\<lambda>r. Some (Fin (sqrt ((z_real r)\<^sup>2 + (z_imag r)\<^sup>2)))) (chart_data u))
       \<and> (\<forall>r \<in> set (table d). fmt r = ''-'' \<or> fmt r = ''o'' \<longrightarrow>
            (\<exists>u \<in> set mags. r \<in> set (chart_data u)))"
proof (rule conjI)
  show "\<forall>u \<in> set mags.
            (mark u = Some Line \<and> chart_data u = get_group ''-'' (table d)
             \<or> mark u = Some Circle \<and> chart_data u = get_group ''o'' (table d))
          \<and> map_option ch_field (enc_y u) = Some ''mag''
          \<and> map_of (calculate u) ''mag'' =
              Some (Sqrt (Add (Pow (Datum Z_real) (Num 2)) (Pow (Datum Z_imag) (Num 2))))
          \<and> plotted u (enc_y u) =
              map (\<lambda>r. Some (Fin (sqrt ((z_real r)\<^sup>2 + (z_imag r)\<^sup>2)))) (chart_data u)"
    using plot_altair_build [OF assms]
    by (auto simp: build_chart_def Let_def chart_defs bode_y_def plotted_def datum_field_def
        eval_mag split: if_splits) (simp_all add: mag_expr_def)
  show "\<forall>r \<in> set (table d). fmt r = ''-'' \<or> fmt r = ''o'' \<longrightarrow>
            (\<exists>u \<in> set mags. r \<in> set (chart_data u))"
    using covered [OF assms] by blast
qed

theorem magnitude_plotted_witness:
  "\<exists>m phss nyqs.
      plot_altair example_line 400 =
        Inr (HConcatChart [VConcatChart [LayerChart [m], LayerChart phss], LayerChart nyqs])
    \<and> mark m = Some Line
    \<and> plotted m (enc_y m) = [Some (Fin (sqrt (100\<^sup>2 + 0\<^sup>2))), Some (Fin (sqrt (80\<^sup>2 + 20\<^sup>2)))]"
  using magnitude_plotted [OF returns_example_line]
  by (simp add: returns_example_line table_example_line chart_defs)


text \<open>
  C6. In a returned figure, if every entry of the collection is tagged \<open>'-'\<close>, no
  sub-chart carries a selection (neither the hover selection nor the one that pans and
  zooms) or a size that depends on one; if every entry is tagged \<open>'o'\<close>, each of the
  three panels is one sub-chart that carries the selection \<open>nearest\<close> (a single
  selection of the nearest point on mouse-over, on the field \<open>f\<close>) and the interval
  selection bound to the scales, and its marker size follows \<open>nearest\<close>.
\<close>

theorem interactivity_by_style:
  assumes "plot_altair d sz =
      Inr (HConcatChart [VConcatChart [LayerChart mags, LayerChart phss], LayerChart nyqs])"
  shows "((\<forall>(knd, ds) \<in> set d. get_fmt ds = ''-'') \<longrightarrow>
            (\<forall>u \<in> set (mags @ phss @ nyqs). selections u = [] \<and> enc_size u = None))
       \<and> ((\<forall>(knd, ds) \<in> set d. get_fmt ds = ''o'') \<longrightarrow>
            (\<exists>m p n. mags = [m] \<and> phss = [p] \<and> nyqs = [n]
               \<and> (\<forall>u \<in> {m, p, n}. selections u = [nearest, selection_interval_scales]
                                   \<and> enc_size u = Some (Condition nearest 80 30))))
       \<and> sel_type nearest = Single \<and> sel_nearest nearest = Some True
       \<and> sel_on nearest = Some ''mouseover'' \<and> sel_fields nearest = [''f'']
       \<and> sel_type selection_interval_scales = Interval
       \<and> sel_bind selection_interval_scales = Some ''scales''"
proof -
  note b = plot_altair_build [OF assms]
  have ne: "table d \<noteq> []" using plot_altair_Inr [OF assms] by simp
  have line: "\<forall>u \<in> set (mags @ phss @ nyqs). selections u = [] \<and> enc_size u = None"
    if "\<forall>(knd, ds) \<in> set d. get_fmt ds = ''-''"
  proof -
    from all_tagged [OF that] have "''o'' \<notin> fmt ` set (table d)" by auto
    with b show ?thesis
      by (auto simp: build_chart_def Let_def chart_defs split: if_splits)
  qed
  have point: "\<exists>m p n. mags = [m] \<and> phss = [p] \<and> nyqs = [n]
               \<and> (\<forall>u \<in> {m, p, n}. selections u = [nearest, selection_interval_scales]
                                   \<and> enc_size u = Some (Condition nearest 80 30))"
    if "\<forall>(knd, ds) \<in> set d. get_fmt ds = ''o''"
  proof -
    from all_tagged [OF that] have sub: "fmt ` set (table d) \<subseteq> {''o''}" .
    then have "''-'' \<notin> fmt ` set (table d)" by auto
    moreover from ne sub have "''o'' \<in> fmt ` set (table d)"
      by (cases "table d") auto
    ultimately show ?thesis using b
      by (simp add: build_chart_def Let_def chart_defs)
  qed
  show ?thesis using line point
    by (simp add: nearest_def selection_interval_scales_def)
qed

theorem interactivity_by_style_witness:
  "(\<exists>m p n.
      plot_altair example_line 400 =
        Inr (HConcatChart [VConcatChart [LayerChart [m], LayerChart [p]], LayerChart [n]])
    \<and> selections m = [] \<and> selections p = [] \<and> selections n = [])
   \<and> (\<exists>m p n.
      plot_altair example_point 400 =
        Inr (HConcatChart [VConcatChart [LayerChart [m], LayerChart [p]], LayerChart [n]])
    \<and> selections m = [nearest, selection_interval_scales]
    \<and> selections p = [nearest, selection_interval_scales]
    \<and> selections n = [nearest, selection_interval_scales])"
proof -
  have "\<forall>(knd, ds) \<in> set example_line. get_fmt ds = ''-''"
    by (simp add: example_line_def get_fmt_def)
  with interactivity_by_style [OF returns_example_line]
  have line: "\<forall>u \<in> set ([bode_mag (line_bode (table example_line) 400)]
      @ [bode_phs (line_bode (table example_line) 400)]
      @ [line_nyquist (table example_line) (domain_x (table example_line))
           (domain_y (table example_line)) 400]). selections u = [] \<and> enc_size u = None"
    by blast
  have "\<forall>(knd, ds) \<in> set example_point. get_fmt ds = ''o''"
    by (simp add: example_point_def get_fmt_def)
  with interactivity_by_style [OF returns_example_point]
  have point: "\<exists>m p n. [bode_mag (point_bode (table example_point) 400)] = [m]
      \<and> [bode_phs (point_bode (table example_point) 400)] = [p]
      \<and> [point_nyquist (table example_point) (domain_x (table example_point))
           (domain_y (table example_point)) 400] = [n]
      \<and> (\<forall>u \<in> {m, p, n}. selections u = [nearest, selection_interval_scales]
                          \<and> enc_size u = Some (Condition nearest 80 30))"
    by blast
  from line point show ?thesis
    by (simp add: returns_example_line returns_example_point)
qed

text \<open>
  C7. Whatever the tags, a collection whose datasets each have as many frequencies as
  impedances and which holds at least one sample gives a figure and no error. No
  sub-chart of any panel holds a row whose tag is neither \<open>'-'\<close> nor \<open>'o'\<close>; and each
  panel has exactly a line layer if the tag \<open>'-'\<close> occurs in the table, followed by a
  point layer if the tag \<open>'o'\<close> occurs, so a style that does not occur has no layer in
  any panel.
\<close>

theorem unrecognized_tags_dropped:
  assumes "well_formed d" and "table d \<noteq> []"
  shows "\<exists>mags phss nyqs.
           plot_altair d sz =
             Inr (HConcatChart [VConcatChart [LayerChart mags, LayerChart phss], LayerChart nyqs])
         \<and> (\<forall>u \<in> set (mags @ phss @ nyqs). \<forall>r \<in> set (chart_data u). fmt r = ''-'' \<or> fmt r = ''o'')
         \<and> map mark mags = (if ''-'' \<in> fmt ` set (table d) then [Some Line] else [])
                          @ (if ''o'' \<in> fmt ` set (table d) then [Some Circle] else [])
         \<and> map mark phss = map mark mags
         \<and> map mark nyqs = map mark mags"
  using assms
  by (auto simp: plot_altair_returns build_chart_def Let_def chart_defs get_group_def)

theorem unrecognized_tags_dropped_witness:
  "plot_altair example_other 400 =
     Inr (HConcatChart [VConcatChart [LayerChart [], LayerChart []], LayerChart []])
   \<and> (\<exists>m p n.
        plot_altair (example_line @ example_other) 400 =
          Inr (HConcatChart [VConcatChart [LayerChart [m], LayerChart [p]], LayerChart [n]])
      \<and> mark m = Some Line \<and> mark p = Some Line \<and> mark n = Some Line)"
proof -
  have ne: "table (example_line @ example_other) \<noteq> []" "table example_other \<noteq> []"
    by (simp_all add: table_append table_example_line table_example_other)
  have tags: "fmt ` set (table (example_line @ example_other)) = {''-'', ''x''}"
     "fmt ` set (table example_other) = {''x''}"
    by (auto simp: table_append table_example_line table_example_other)
  show ?thesis
    using unrecognized_tags_dropped [OF wf_examples(3) ne(2), of 400]
      unrecognized_tags_dropped [OF wf_examples(5) ne(1), of 400]
    by (auto simp: tags)
qed

text \<open>
  C9. A figure returned by \<^verbatim>\<open>plot_altair\<close> is a horizontal concatenation of two
  parts: on the left the vertical concatenation of the layered magnitude sub-charts (on
  top) and the layered phase sub-charts (below), on the right the layered Nyquist
  sub-charts. The magnitude sub-charts draw \<open>mag\<close> and the phase sub-charts
  \<open>neg_phase\<close> against \<open>f\<close>; the Nyquist sub-charts draw \<open>neg_z_imag\<close> against \<open>z_real\<close>.
\<close>

theorem plot_altair_layout:
  assumes "plot_altair d sz = Inr c"
  shows "\<exists>mags phss nyqs.
           c = HConcatChart [VConcatChart [LayerChart mags, LayerChart phss], LayerChart nyqs]
         \<and> (\<forall>u \<in> set mags. map_option ch_field (enc_x u) = Some ''f''
                            \<and> map_option ch_field (enc_y u) = Some ''mag'')
         \<and> (\<forall>u \<in> set phss. map_option ch_field (enc_x u) = Some ''f''
                            \<and> map_option ch_field (enc_y u) = Some ''neg_phase'')
         \<and> (\<forall>u \<in> set nyqs. map_option ch_field (enc_x u) = Some ''z_real''
                            \<and> map_option ch_field (enc_y u) = Some ''neg_z_imag'')"
  using plot_altair_build [OF assms]
  by (auto simp: build_chart_def Let_def chart_defs bode_x_def bode_y_def
      nyquist_x_def nyquist_y_def)

theorem plot_altair_layout_witness:
  "\<exists>m p n.
      plot_altair example_point 400 =
        Inr (HConcatChart [VConcatChart [LayerChart [m], LayerChart [p]], LayerChart [n]])
    \<and> map_option ch_field (enc_x m) = Some ''f'' \<and> map_option ch_field (enc_y m) = Some ''mag''
    \<and> map_option ch_field (enc_x p) = Some ''f'' \<and> map_option ch_field (enc_y p) = Some ''neg_phase''
    \<and> map_option ch_field (enc_x n) = Some ''z_real''
    \<and> map_option ch_field (enc_y n) = Some ''neg_z_imag''"
  using plot_altair_layout [OF returns_example_point]
  by (simp add: returns_example_point)

text \<open>
  C10. A dataset without the key \<open>fmt\<close> is treated as one tagged \<open>'o'\<close>: the result of
  \<^verbatim>\<open>plot_altair\<close> is the same as with the tag written out, and in a returned figure
  every row of such a dataset carries the tag \<open>'o'\<close> and lies, in each of the three
  panels, in a sub-chart of circle marks that carries the hover selection and the
  pan-and-zoom selection, and in no sub-chart of line marks.
\<close>

theorem missing_fmt_is_point:
  "plot_altair (d1 @ (knd, ds\<lparr>ds_fmt := None\<rparr>) # d2) sz
     = plot_altair (d1 @ (knd, ds\<lparr>ds_fmt := Some ''o''\<rparr>) # d2) sz
   \<and> (\<forall>mags phss nyqs r.
        plot_altair (d1 @ (knd, ds\<lparr>ds_fmt := None\<rparr>) # d2) sz =
          Inr (HConcatChart [VConcatChart [LayerChart mags, LayerChart phss], LayerChart nyqs])
        \<and> r \<in> set (df_rows knd (ds\<lparr>ds_fmt := None\<rparr>))
        \<longrightarrow> fmt r = ''o''
          \<and> (\<forall>us \<in> {mags, phss, nyqs}.
                (\<exists>u \<in> set us. r \<in> set (chart_data u) \<and> mark u = Some Circle
                    \<and> selections u = [nearest, selection_interval_scales]
                    \<and> enc_size u = Some (Condition nearest 80 30))
              \<and> (\<forall>u \<in> set us. mark u = Some Line \<longrightarrow> r \<notin> set (chart_data u))))"
proof -
  let ?d = "d1 @ (knd, ds\<lparr>ds_fmt := None\<rparr>) # d2"
  have eq: "plot_altair ?d sz = plot_altair (d1 @ (knd, ds\<lparr>ds_fmt := Some ''o''\<rparr>) # d2) sz"
    by (simp add: plot_altair_def flatten_default)
  have rest: "fmt r = ''o''
          \<and> (\<forall>us \<in> {mags, phss, nyqs}.
                (\<exists>u \<in> set us. r \<in> set (chart_data u) \<and> mark u = Some Circle
                    \<and> selections u = [nearest, selection_interval_scales]
                    \<and> enc_size u = Some (Condition nearest 80 30))
              \<and> (\<forall>u \<in> set us. mark u = Some Line \<longrightarrow> r \<notin> set (chart_data u)))"
    if ret: "plot_altair ?d sz =
          Inr (HConcatChart [VConcatChart [LayerChart mags, LayerChart phss], LayerChart nyqs])"
      and r: "r \<in> set (df_rows knd (ds\<lparr>ds_fmt := None\<rparr>))"
    for mags phss nyqs r
  proof -
    have f: "fmt r = ''o''" using df_rows_fmt [OF r] by (simp add: get_fmt_def)
    have "r \<in> set (table ?d)" using r df_rows_table [of knd "ds\<lparr>ds_fmt := None\<rparr>" ?d] by auto
    with f have "''o'' \<in> fmt ` set (table ?d)" and "r \<in> set (get_group ''o'' (table ?d))"
      and "r \<notin> set (get_group ''-'' (table ?d))"
      by (force simp: get_group_def)+
    with plot_altair_build [OF ret] f show ?thesis
      by (auto simp: build_chart_def Let_def chart_defs split: if_splits)
  qed
  from eq rest show ?thesis by blast
qed

theorem missing_fmt_is_point_witness:
  "plot_altair [(''data'', \<lparr>ds_f = [1, 10], ds_Z = [Complex 100 0, Complex 60 (- 10)],
                             ds_fmt = None\<rparr>)] 400
     = plot_altair [(''data'', \<lparr>ds_f = [1, 10], ds_Z = [Complex 100 0, Complex 60 (- 10)],
                             ds_fmt = Some ''o''\<rparr>)] 400
   \<and> (\<exists>m p n.
        plot_altair example_point 400 =
          Inr (HConcatChart [VConcatChart [LayerChart [m], LayerChart [p]], LayerChart [n]])
      \<and> mark m = Some Circle \<and> mark p = Some Circle \<and> mark n = Some Circle
      \<and> chart_data n = table example_point
      \<and> selections n = [nearest, selection_interval_scales])"
proof -
  let ?ds = "\<lparr>ds_f = [1, 10], ds_Z = [Complex 100 0, Complex 60 (- 10)], ds_fmt = None\<rparr>"
  let ?r = "\<lparr>col_f = 1, z_real = 100, z_imag = 0, kind = ''data'', fmt = ''o''\<rparr>"
  note inst = missing_fmt_is_point [of "[]" "''data''" "?ds" "[]" 400]
  have dict: "[] @ (''data'', ?ds\<lparr>ds_fmt := None\<rparr>) # [] = example_point"
    by (simp add: example_point_def)
  have r: "?r \<in> set (df_rows ''data'' (?ds\<lparr>ds_fmt := None\<rparr>))"
    by (simp add: df_rows_def get_fmt_def)
  from inst have eq: "plot_altair [(''data'', ?ds)] 400
      = plot_altair [(''data'', ?ds\<lparr>ds_fmt := Some ''o''\<rparr>)] 400"
    by simp
  from inst [unfolded dict] returns_example_point r
  have "\<forall>us \<in> {[bode_mag (point_bode (table example_point) 400)],
                 [bode_phs (point_bode (table example_point) 400)],
                 [point_nyquist (table example_point) (domain_x (table example_point))
                    (domain_y (table example_point)) 400]}.
          \<exists>u \<in> set us. ?r \<in> set (chart_data u) \<and> mark u = Some Circle
            \<and> selections u = [nearest, selection_interval_scales]
            \<and> enc_size u = Some (Condition nearest 80 30)"
    by blast
  then have "mark (bode_mag (point_bode (table example_point) 400)) = Some Circle"
    "mark (bode_phs (point_bode (table example_point) 400)) = Some Circle"
    "mark (point_nyquist (table example_point) (domain_x (table example_point))
                    (domain_y (table example_point)) 400) = Some Circle"
    "selections (point_nyquist (table example_point) (domain_x (table example_point))
                    (domain_y (table example_point)) 400) = [nearest, selection_interval_scales]"
    by simp_all
  moreover have "chart_data (point_nyquist (table example_point) (domain_x (table example_point))
                    (domain_y (table example_point)) 400) = table example_point"
    by (simp add: chart_defs)
  ultimately show ?thesis using eq
    by (simp add: returns_example_point)
qed

end
